theory Spec2Isabelle
  imports Main "HOL-Library.Multiset"
begin

text \<open>
  A model of the feed aggregation action: \<^verbatim>\<open>utils.js\<close> (\<^verbatim>\<open>formatDate\<close>, \<^verbatim>\<open>logger\<close>,
  \<^verbatim>\<open>handleError\<close>, \<^verbatim>\<open>withRetry\<close>, \<^verbatim>\<open>ConcurrencyPool\<close>, \<^verbatim>\<open>IssueManager\<close>) and
  \<^verbatim>\<open>index.js\<close> (\<^verbatim>\<open>parseFeed\<close>, \<^verbatim>\<open>processIssue\<close>, \<^verbatim>\<open>run\<close>), both in
  \<^verbatim>\<open>src/src/utils.js\<close>. The file \<^verbatim>\<open>src/unnamed/part_000\<close> is an earlier revision of
  \<^verbatim>\<open>index.js\<close> with the same control flow; it differs in its log lines, in reading the
  inputs with defaults instead of \<^verbatim>\<open>parseInt\<close>, in writing to the fixed path
  \<^verbatim>\<open>all.json\<close>, and in not reading \<^verbatim>\<open>posts.length\<close> after the fetch.
\<close>

section \<open>Values, errors and the observable trace\<close>

text \<open>
  The structured block of a tracker entry is whatever \<^verbatim>\<open>JSON.parse\<close> returns. The pipeline
  never computes with numbers of the block, it only passes them on, so a number carries an
  integer here. A property that is absent reads as \<^verbatim>\<open>undefined\<close>, modelled as \<open>None\<close> of
  \<open>json option\<close>.
\<close>

datatype json =
    JNull
  | JBool bool
  | JNum int
  | JStr string
  | JArr "json list"
  | JObj "(string \<times> json) list"

type_synonym jsval = "json option"

text \<open>JavaScript truthiness of a value read from the block.\<close>

fun truthy :: "jsval \<Rightarrow> bool" where
  "truthy None = False"
| "truthy (Some JNull) = False"
| "truthy (Some (JBool b)) = b"
| "truthy (Some (JNum n)) = (n \<noteq> 0)"
| "truthy (Some (JStr s)) = (s \<noteq> [])"
| "truthy (Some (JArr xs)) = True"
| "truthy (Some (JObj kvs)) = True"

text \<open>
  What a \<^verbatim>\<open>catch\<close> receives. \<^verbatim>\<open>handleError\<close> tells three shapes apart: an error
  with a \<^verbatim>\<open>response\<close> (status, status text, serialised data), one with a
  \<^verbatim>\<open>request\<close> only, and any other error, of which the message is kept.
\<close>

datatype js_error =
    ResponseError nat string string
  | RequestError
  | MessageError string

datatype level = LInfo | LWarn | LError

text \<open>
  The report written at the end of a run: \<^verbatim>\<open>statistical_data\<close> and
  \<^verbatim>\<open>article_data\<close>.
\<close>

record article =
  a_title :: jsval
  a_created :: jsval
  a_link :: jsval
  a_author :: json
  a_avatar :: json

record report =
  friends_num :: nat
  active_num :: nat
  error_num :: nat
  article_num :: nat
  last_updated_time :: string
  article_data :: "article list"

text \<open>
  Every effect of the program is an event of a trace, in the order the program performs it.
  A log line keeps its level and its message template (interpolated values are not rendered,
  and the two non-ASCII banners are written \<open>>> begin\<close> and \<open>>> end\<close>).
\<close>

datatype event =
    Log level string
  | HttpGet json
  | Sleep nat
  | IssuesUpdate nat "string option"
  | Mkdir string
  | WriteFile string report
  | Exit nat

text \<open>
  The state threaded through the program: the number of HTTP requests issued so far (the
  network may answer the same URL differently each time) and the trace.
\<close>

record world =
  requests :: nat
  trace :: "event list"

type_synonym 'a io = "world \<Rightarrow> (js_error + 'a) \<times> world"

definition emit :: "event \<Rightarrow> world \<Rightarrow> world" where
  "emit e w = w\<lparr>trace := trace w @ [e]\<rparr>"

text \<open>\<^verbatim>\<open>logger(level, message)\<close>: one console line.\<close>

definition logger :: "level \<Rightarrow> string \<Rightarrow> world \<Rightarrow> world" where
  "logger l m w = emit (Log l m) w"

text \<open>\<^verbatim>\<open>handleError(error, context)\<close>: one error line, whose text depends on the shape.\<close>

fun handleError :: "js_error \<Rightarrow> string \<Rightarrow> world \<Rightarrow> world" where
  "handleError (ResponseError st txt dat) ctxt w =
     logger LError (ctxt @ '': '' @ txt @ '' - '' @ dat) w"
| "handleError RequestError ctxt w =
     logger LError (ctxt @ '': No response received'') w"
| "handleError (MessageError m) ctxt w =
     logger LError (ctxt @ '': '' @ m) w"

section \<open>External collaborators\<close>

text \<open>
  The libraries and services the program calls are parameters of the model: the HTTP client
  (\<^verbatim>\<open>axios.get\<close>, answering the \<open>n\<close>-th request of the run), the markup parser with the
  selector queries the feed parser makes (\<^verbatim>\<open>cheerio\<close>), the date library (\<^verbatim>\<open>dayjs\<close>),
  \<^verbatim>\<open>Date\<close>, the regular-expression search for the fenced block, \<^verbatim>\<open>JSON.parse\<close>,
  \<^verbatim>\<open>JSON.stringify\<close>, \<^verbatim>\<open>String.prototype.replace\<close>, and the tracker
  (\<^verbatim>\<open>octokit\<close>: listing the open issues, updating one).
\<close>

text \<open>
  One matched feed item, as the queries of \<^verbatim>\<open>parseFeed\<close> see it: the text of the first
  \<^verbatim>\<open>title\<close>, \<^verbatim>\<open>link\<close>, \<^verbatim>\<open>pubDate\<close> and \<^verbatim>\<open>published\<close> descendants (the empty
  string when there is none) and the \<^verbatim>\<open>href\<close> attribute of the first
  \<^verbatim>\<open>link[rel="alternate"]\<close> and of the first \<^verbatim>\<open>link\<close> (\<open>None\<close> for
  \<^verbatim>\<open>undefined\<close>).
\<close>

record item =
  title_text :: string
  link_text :: string
  alternate_href :: "string option"
  link_href :: "string option"
  pubDate_text :: string
  published_text :: string

record feed_doc =
  feed_entries :: "item list"
  rss_items :: "item list"

record response =
  status :: nat
  body :: string

record issue =
  number :: nat
  issue_body :: "string option"
  labels :: "string list"

record env =
  axios_get :: "nat \<Rightarrow> json \<Rightarrow> js_error + response"
  cheerio_load :: "string \<Rightarrow> js_error + feed_doc"
  dayjs_parse :: "string \<Rightarrow> int option"
  dayjs_render :: "int \<Rightarrow> string \<Rightarrow> string"
  date_time :: "jsval \<Rightarrow> int option"
  now :: int
  match_fence :: "string \<Rightarrow> string option"
  json_parse :: "string \<Rightarrow> js_error + json"
  json_stringify :: "json \<Rightarrow> string"
  string_replace :: "string \<Rightarrow> string \<Rightarrow> string \<Rightarrow> string"
  list_for_repo :: "js_error + issue list"
  issues_update :: "nat \<Rightarrow> string option \<Rightarrow> js_error option"
  mkdirSync :: "string \<Rightarrow> js_error option"
  writeFileSync :: "string \<Rightarrow> report \<Rightarrow> js_error option"

text \<open>The action's inputs, after \<^verbatim>\<open>parseInt\<close> (a \<^verbatim>\<open>NaN\<close> behaves as \<open>0\<close> in both uses).\<close>

record config =
  RETRY_TIMES :: int
  POSTS_COUNT :: int
  DATE_FORMAT :: string
  DATAPATH :: string

section \<open>utils.js\<close>

text \<open>
  \<^verbatim>\<open>formatDate(dateString, format) = dayjs(dateString).format(format)\<close>. The library
  renders a date it could not parse as the text \<open>Invalid Date\<close>, whatever the format.
\<close>

definition formatDate :: "env \<Rightarrow> string \<Rightarrow> string \<Rightarrow> string" where
  "formatDate E dateString fmt =
     (case dayjs_parse E dateString of
        None \<Rightarrow> ''Invalid Date''
      | Some t \<Rightarrow> dayjs_render E t fmt)"

text \<open>
  \<^verbatim>\<open>withRetry(fn, retries, delay)\<close>. The loop variable \<open>i\<close> runs from \<open>0\<close>; a loop
  that ends without returning makes the function return \<^verbatim>\<open>undefined\<close>, here \<open>None\<close>.
\<close>

function withRetry_from :: "nat \<Rightarrow> 'a io \<Rightarrow> int \<Rightarrow> nat \<Rightarrow> 'a option io" where
  "withRetry_from i fn retries delay w =
     (if int i < retries then
        (case fn w of
           (Inr v, w') \<Rightarrow> (Inr (Some v), w')
         | (Inl e, w') \<Rightarrow>
             if int i = retries - 1 then (Inl e, w')
             else withRetry_from (Suc i) fn retries delay (emit (Sleep delay) w'))
      else (Inr None, w))"
  by pat_completeness auto
termination
  by (relation "measure (\<lambda>(i, fn, retries, delay, w). nat (retries - int i))") auto

declare withRetry_from.simps [simp del]

definition withRetry :: "'a io \<Rightarrow> int \<Rightarrow> 'a option io" where
  "withRetry fn retries = withRetry_from 0 fn retries 1000"

section \<open>index.js: the feed parser\<close>

record post =
  title :: string
  link :: string
  published :: string

text \<open>\<^verbatim>\<open>items.slice(0, n)\<close>: a negative end counts from the end of the list.\<close>

definition slice0 :: "int \<Rightarrow> 'a list \<Rightarrow> 'a list" where
  "slice0 n xs = (if 0 \<le> n then take (nat n) xs else take (length xs - nat (- n)) xs)"

text \<open>
  The link of an item: the text of the first \<^verbatim>\<open>link\<close> for RSS; for Atom the
  \<^verbatim>\<open>href\<close> of the link marked \<^verbatim>\<open>rel="alternate"\<close>, and when that is missing or
  empty the \<^verbatim>\<open>href\<close> of the first link.
\<close>

definition item_link :: "bool \<Rightarrow> item \<Rightarrow> string option" where
  "item_link isRss it =
     (if isRss then Some (link_text it)
      else (case alternate_href it of
              None \<Rightarrow> link_href it
            | Some l \<Rightarrow> if l = [] then link_href it else Some l))"

definition item_date :: "bool \<Rightarrow> item \<Rightarrow> string" where
  "item_date isRss it = (if isRss then pubDate_text it else published_text it)"

definition item_published :: "env \<Rightarrow> config \<Rightarrow> bool \<Rightarrow> item \<Rightarrow> string" where
  "item_published E C isRss it =
     (let publishedDateStr = item_date isRss it
      in if publishedDateStr \<noteq> [] then formatDate E publishedDateStr (DATE_FORMAT C) else [])"

text \<open>The callback of \<^verbatim>\<open>each\<close>, run over the sliced items in order.\<close>

fun each_item :: "env \<Rightarrow> config \<Rightarrow> bool \<Rightarrow> item list \<Rightarrow> post list \<Rightarrow> world \<Rightarrow> post list \<times> world" where
  "each_item E C isRss [] posts w = (posts, w)"
| "each_item E C isRss (it # its) posts w =
     (let t = title_text it;
          l = item_link isRss it;
          formattedPublished = item_published E C isRss it;
          w1 = logger LInfo ''Extracted - Title: ${title}, Link: ${link}, Published: ${formattedPublished}'' w;
          posts1 = (case l of
                      None \<Rightarrow> posts
                    | Some lk \<Rightarrow>
                        if t \<noteq> [] \<and> lk \<noteq> []
                        then posts @ [\<lparr>title = t, link = lk, published = formattedPublished\<rparr>]
                        else posts)
      in each_item E C isRss its posts1 w1)"

text \<open>\<^verbatim>\<open>await axios.get(feedUrl, { timeout: 5000 })\<close>: the next request of the run.\<close>

definition http_get :: "env \<Rightarrow> json \<Rightarrow> response io" where
  "http_get E url w =
     (axios_get E (requests w) url, emit (HttpGet url) (w\<lparr>requests := Suc (requests w)\<rparr>))"

text \<open>The \<^verbatim>\<open>try\<close> block of \<^verbatim>\<open>parseFeed\<close>.\<close>

definition parseFeed_try :: "env \<Rightarrow> config \<Rightarrow> json \<Rightarrow> post list io" where
  "parseFeed_try E C feedUrl w =
     (let w1 = logger LInfo ''Fetching feed from URL: ${feedUrl}'' w
      in case http_get E feedUrl w1 of
           (Inl e, w2) \<Rightarrow> (Inl e, w2)
         | (Inr resp, w2) \<Rightarrow>
             (let w3 = logger LInfo ''Feed response received from ${feedUrl}, status: ${response.status}'' w2
              in case cheerio_load E (body resp) of
                   Inl e \<Rightarrow> (Inl e, w3)
                 | Inr doc \<Rightarrow>
                     (let atom = feed_entries doc;
                          isRss = (atom = [] \<and> rss_items doc \<noteq> []);
                          items = (if atom = [] then rss_items doc else atom);
                          w4 = logger LInfo ''Feed URL: ${feedUrl}, items found: ${items.length}, isRss: ${isRss}'' w3;
                          (posts, w5) = each_item E C isRss (slice0 (POSTS_COUNT C) items) [] w4
                      in (Inr posts, w5))))"

text \<open>\<^verbatim>\<open>parseFeed\<close>: the \<^verbatim>\<open>catch\<close> logs the error and returns the empty list.\<close>

definition parseFeed :: "env \<Rightarrow> config \<Rightarrow> json \<Rightarrow> post list io" where
  "parseFeed E C feedUrl w =
     (case parseFeed_try E C feedUrl w of
        (Inl e, w') \<Rightarrow> (Inr [], handleError e ''Error parsing feed from ${feedUrl}'' w')
      | (Inr posts, w') \<Rightarrow> (Inr posts, w'))"

section \<open>index.js: the entry processor\<close>

datatype entry_status = Active | Failed

text \<open>
  The object \<^verbatim>\<open>processIssue\<close> resolves with. The error object has only
  \<^verbatim>\<open>status\<close>, \<^verbatim>\<open>posts\<close> and \<^verbatim>\<open>feedUrl\<close> (which is \<^verbatim>\<open>null\<close>); its other
  properties read as \<^verbatim>\<open>undefined\<close>.
\<close>

record entry_result =
  r_data :: jsval
  r_newBody :: "string option"
  r_posts :: "post list"
  r_status :: entry_status
  r_feedUrl :: jsval
  r_author :: jsval
  r_avatar :: jsval

definition error_result :: entry_result where
  "error_result =
     \<lparr>r_data = None, r_newBody = None, r_posts = [], r_status = Failed,
      r_feedUrl = Some JNull, r_author = None, r_avatar = None\<rparr>"

text \<open>
  Reading a property: of \<^verbatim>\<open>null\<close> it throws a \<^verbatim>\<open>TypeError\<close>, of an object it is the
  value stored under the key or \<^verbatim>\<open>undefined\<close>, of any other value \<^verbatim>\<open>undefined\<close>
  (properties inherited from a prototype are not modelled).
\<close>

fun get_prop :: "json \<Rightarrow> string \<Rightarrow> js_error + jsval" where
  "get_prop JNull k = Inl (MessageError ''Cannot read properties of null'')"
| "get_prop (JObj kvs) k = Inr (map_of kvs k)"
| "get_prop v k = Inr None"

text \<open>\<^verbatim>\<open>x || ''\<close>.\<close>

definition or_empty :: "jsval \<Rightarrow> json" where
  "or_empty x = (case x of None \<Rightarrow> JStr [] | Some v \<Rightarrow> if truthy x then v else JStr [])"

text \<open>
  The second match, \<^verbatim>\<open>/\{[\s\S]*\}/\<close> on the text of the first one: from the first
  opening brace to the last closing brace after it.
\<close>

definition brace_span :: "string \<Rightarrow> string option" where
  "brace_span m =
     (let s = dropWhile (\<lambda>c. c \<noteq> CHR ''{'') m;
          r = rev (dropWhile (\<lambda>c. c \<noteq> CHR ''}'') (rev s))
      in if length r < 2 then None else Some r)"

definition jsonMatch_of :: "env \<Rightarrow> string \<Rightarrow> string option" where
  "jsonMatch_of E b = (case match_fence E b of None \<Rightarrow> None | Some m \<Rightarrow> brace_span m)"

text \<open>
  The part of the \<^verbatim>\<open>try\<close> block after \<^verbatim>\<open>JSON.parse\<close>. When \<^verbatim>\<open>withRetry\<close> returns
  \<^verbatim>\<open>undefined\<close>, reading \<^verbatim>\<open>posts.length\<close> for the log line throws.
\<close>

definition process_parsed ::
  "env \<Rightarrow> config \<Rightarrow> string \<Rightarrow> string \<Rightarrow> json \<Rightarrow> entry_result option io" where
  "process_parsed E C b jm jsonData w =
     (let w1 = logger LInfo ''Parsed JSON content from issue #${issue.number}'' w
      in case get_prop jsonData ''feed'' of
           Inl e \<Rightarrow> (Inl e, w1)
         | Inr feedUrl \<Rightarrow>
             (let (fetched, w3) =
                    (if truthy feedUrl then
                       withRetry (parseFeed E C (the feedUrl)) (RETRY_TIMES C)
                         (logger LInfo ''Fetching feed data from ${feedUrl}'' w1)
                     else (Inr (Some []), w1))
              in case fetched of
                   Inl e \<Rightarrow> (Inl e, w3)
                 | Inr None \<Rightarrow> (Inl (MessageError ''Cannot read properties of undefined''), w3)
                 | Inr (Some posts) \<Rightarrow>
                     (let st = (if truthy feedUrl \<and> posts \<noteq> [] then Active else Failed);
                          w4 = logger LInfo ''Processed feed data for issue #${issue.number}, posts count: ${posts.length}, status: ${status}'' w3;
                          newBody = string_replace E b jm (json_stringify E jsonData)
                      in case get_prop jsonData ''author'' of
                           Inl e \<Rightarrow> (Inl e, w4)
                         | Inr au \<Rightarrow>
                            (case get_prop jsonData ''avatar'' of
                               Inl e \<Rightarrow> (Inl e, w4)
                             | Inr av \<Rightarrow>
                                 (Inr (Some \<lparr>r_data = Some jsonData, r_newBody = Some newBody,
                                         r_posts = posts, r_status = st, r_feedUrl = feedUrl,
                                         r_author = Some (or_empty au),
                                         r_avatar = Some (or_empty av)\<rparr>), w4)))))"

text \<open>The \<^verbatim>\<open>try\<close> block of \<^verbatim>\<open>processIssue\<close>.\<close>

definition processIssue_try :: "env \<Rightarrow> config \<Rightarrow> issue \<Rightarrow> entry_result option io" where
  "processIssue_try E C i w =
     (let w1 = logger LInfo ''Processing issue #${issue.number}'' w
      in case issue_body i of
           None \<Rightarrow>
             (Inr (Some error_result),
              logger LWarn ''Issue #${issue.number} has no body content, skipping...'' w1)
         | Some b \<Rightarrow>
             if b = [] then
               (Inr (Some error_result),
                logger LWarn ''Issue #${issue.number} has no body content, skipping...'' w1)
             else
               (case jsonMatch_of E b of
                  None \<Rightarrow>
                    (Inr (Some error_result),
                     logger LWarn ''No JSON content found in issue #${issue.number}'' w1)
                | Some jm \<Rightarrow>
                    (let w2 = logger LInfo ''Found JSON content in issue #${issue.number}, jsonMatch[0]: ${jsonMatch[0]}'' w1
                     in case json_parse E jm of
                          Inl e \<Rightarrow> (Inl e, w2)
                        | Inr jsonData \<Rightarrow> process_parsed E C b jm jsonData w2)))"

text \<open>\<^verbatim>\<open>processIssue\<close>: the \<^verbatim>\<open>catch\<close> logs the error and returns the error object.\<close>

definition processIssue :: "env \<Rightarrow> config \<Rightarrow> issue \<Rightarrow> entry_result option io" where
  "processIssue E C i w =
     (case processIssue_try E C i w of
        (Inl e, w') \<Rightarrow>
          (Inr (Some error_result), handleError e ''Error processing issue #${issue.number}'' w')
      | (Inr r, w') \<Rightarrow> (Inr r, w'))"

section \<open>utils.js: the tracker and the pool\<close>

text \<open>
  \<^verbatim>\<open>IssueManager.getIssues(exclude_labels)\<close>: all open issues, without those that carry an
  excluded label; a failure of the listing is logged and thrown again.
\<close>

definition getIssues :: "env \<Rightarrow> string list option \<Rightarrow> issue list io" where
  "getIssues E exclude_labels w =
     (case list_for_repo E of
        Inl e \<Rightarrow> (Inl e, logger LError ''get issues failed'' w)
      | Inr issues \<Rightarrow>
          (let w1 = logger LInfo ''${issues.length} open issues'' w
           in case exclude_labels of
                None \<Rightarrow> (Inr issues, w1)
              | Some ex \<Rightarrow>
                  if ex = [] then (Inr issues, w1)
                  else (Inr (filter (\<lambda>i. \<not> (\<exists>l \<in> set ex. l \<in> set (labels i))) issues),
                        logger LInfo ''${filteredIssues.length} issues after the label filter'' w1)))"

text \<open>
  \<^verbatim>\<open>ConcurrencyPool\<close>: the ceiling, the number of running tasks and the queue of waiters
  (a waiter is named by the number of the issue whose task waits).
\<close>

record pool =
  maxConcurrency :: nat
  running :: nat
  queue :: "nat list"

definition new_pool :: "nat \<Rightarrow> pool" where
  "new_pool n = \<lparr>maxConcurrency = n, running = 0, queue = []\<rparr>"

text \<open>
  \<^verbatim>\<open>await pool.add(fn)\<close> as \<^verbatim>\<open>run\<close> uses it: the caller waits for the call to settle
  before it does anything else. When the pool is full the task joins the queue, and since
  only a finishing task wakes a waiter and the caller submits nothing while it waits, the
  call never settles: \<open>None\<close>. Otherwise the task runs between the increment and the
  decrement of \<^verbatim>\<open>running\<close>, and the \<^verbatim>\<open>finally\<close> block wakes the first waiter.
\<close>

definition pool_add ::
  "pool \<Rightarrow> nat \<Rightarrow> ('s \<Rightarrow> (js_error + 'a) \<times> 's) \<Rightarrow> 's \<Rightarrow> ((js_error + 'a) \<times> 's) option \<times> pool" where
  "pool_add p who fn s =
     (if maxConcurrency p \<le> running p then (None, p\<lparr>queue := queue p @ [who]\<rparr>)
      else
        (let p1 = p\<lparr>running := running p + 1\<rparr>;
             res = fn s;
             p2 = p1\<lparr>running := running p1 - 1\<rparr>;
             p3 = (if queue p2 \<noteq> [] then p2\<lparr>queue := tl (queue p2)\<rparr> else p2)
         in (Some res, p3)))"

text \<open>
  The same method one step at a time, for any caller. A call of \<^verbatim>\<open>add\<close> runs until its
  first \<^verbatim>\<open>await\<close>: when the pool is full the task joins the queue, otherwise
  \<^verbatim>\<open>running\<close> is incremented and the body starts (\<open>Call\<close>). When a body has settled,
  the \<^verbatim>\<open>finally\<close> block decrements \<^verbatim>\<open>running\<close>, shifts the first waiter off the queue
  and resolves its promise (\<open>Finish\<close>); the waiter continues in a later turn of the event loop,
  woken waiters in the order they were resolved, and only then increments \<^verbatim>\<open>running\<close> and
  starts its body (\<open>Resume\<close>). A step that cannot happen in the state gives \<open>None\<close>.
\<close>

record sched = pool +
  woken :: "nat list"
  executing :: "nat list"

definition new_sched :: "nat \<Rightarrow> sched" where
  "new_sched n = \<lparr>maxConcurrency = n, running = 0, queue = [], woken = [], executing = []\<rparr>"

datatype pool_event = Call nat | Resume | Finish nat

fun pool_step :: "pool_event \<Rightarrow> sched \<Rightarrow> sched option" where
  "pool_step (Call t) s =
     (if maxConcurrency s \<le> running s then Some (s\<lparr>queue := queue s @ [t]\<rparr>)
      else Some (s\<lparr>running := running s + 1, executing := executing s @ [t]\<rparr>))"
| "pool_step Resume s =
     (case woken s of
        [] \<Rightarrow> None
      | t # ts \<Rightarrow> Some (s\<lparr>woken := ts, running := running s + 1, executing := executing s @ [t]\<rparr>))"
| "pool_step (Finish t) s =
     (if t \<in> set (executing s) then
        (let s1 = s\<lparr>running := running s - 1, executing := remove1 t (executing s)\<rparr>
         in case queue s1 of
              [] \<Rightarrow> Some s1
            | next # rest \<Rightarrow> Some (s1\<lparr>queue := rest, woken := woken s1 @ [next]\<rparr>))
      else None)"

fun pool_run :: "pool_event list \<Rightarrow> sched \<Rightarrow> sched option" where
  "pool_run [] s = Some s"
| "pool_run (e # es) s = (case pool_step e s of None \<Rightarrow> None | Some s' \<Rightarrow> pool_run es s')"

section \<open>index.js: the run\<close>

definition CONCURRENCY_LIMIT :: nat where
  "CONCURRENCY_LIMIT = 10"

text \<open>
  \<^verbatim>\<open>result.data.posts.forEach(...)\<close>: one article per element of the embedded array; an
  element that is \<^verbatim>\<open>null\<close> throws, with the articles before it already pushed.
\<close>

fun push_posts :: "json \<Rightarrow> json \<Rightarrow> json list \<Rightarrow> article list \<Rightarrow> (js_error + unit) \<times> article list" where
  "push_posts author avatar [] arts = (Inr (), arts)"
| "push_posts author avatar (p # ps) arts =
     (case get_prop p ''title'' of
        Inl e \<Rightarrow> (Inl e, arts)
      | Inr t \<Rightarrow>
         (case get_prop p ''published'' of
            Inl e \<Rightarrow> (Inl e, arts)
          | Inr pu \<Rightarrow>
             (case get_prop p ''link'' of
                Inl e \<Rightarrow> (Inl e, arts)
              | Inr l \<Rightarrow>
                  push_posts author avatar ps
                    (arts @ [\<lparr>a_title = t, a_created = pu, a_link = l,
                              a_author = author, a_avatar = avatar\<rparr>]))))"

text \<open>
  The merge of one result: \<^verbatim>\<open>if (result.data && Array.isArray(result.data.posts))\<close>.
  The variables of \<^verbatim>\<open>run\<close> that the tasks share (\<^verbatim>\<open>allArticles\<close>,
  \<^verbatim>\<open>active_num\<close>, \<^verbatim>\<open>error_num\<close>, \<^verbatim>\<open>article_num\<close>) are the fields of the report in
  the making; \<^verbatim>\<open>allArticles\<close> is its \<open>article_data\<close>.
\<close>

definition merge_posts :: "entry_result \<Rightarrow> report \<Rightarrow> (js_error + unit) \<times> report" where
  "merge_posts result R =
     (case r_data result of
        None \<Rightarrow> (Inr (), R)
      | Some d \<Rightarrow>
          if \<not> truthy (Some d) then (Inr (), R)
          else
            (case get_prop d ''posts'' of
               Inr (Some (JArr ps)) \<Rightarrow>
                 (case get_prop d ''name'' of
                    Inl e \<Rightarrow> (Inl e, R)
                  | Inr nm \<Rightarrow>
                     (case get_prop d ''avatar'' of
                        Inl e \<Rightarrow> (Inl e, R)
                      | Inr av \<Rightarrow>
                         (case push_posts (or_empty nm) (or_empty av) ps (article_data R) of
                            (Inl e, arts) \<Rightarrow> (Inl e, R\<lparr>article_data := arts\<rparr>)
                          | (Inr u, arts) \<Rightarrow>
                              (Inr (), R\<lparr>article_data := arts,
                                         article_num := article_num R + length ps\<rparr>))))
             | Inr other \<Rightarrow> (Inr (), R)
             | Inl e \<Rightarrow> (Inl e, R)))"

text \<open>\<^verbatim>\<open>issueManager.octokit.issues.update({ issue_number, body })\<close>.\<close>

definition update_issue :: "env \<Rightarrow> nat \<Rightarrow> string option \<Rightarrow> world \<Rightarrow> js_error option \<times> world" where
  "update_issue E n b w = (issues_update E n b, emit (IssuesUpdate n b) w)"

text \<open>The task that \<^verbatim>\<open>run\<close> submits for one issue.\<close>

definition task :: "env \<Rightarrow> config \<Rightarrow> issue \<Rightarrow> report \<times> world \<Rightarrow> (js_error + unit) \<times> (report \<times> world)" where
  "task E C i = (\<lambda>(R, w).
     (let w1 = logger LInfo ''Processing issue #${issue.number}'' w
      in case processIssue E C i w1 of
           (Inl e, w2) \<Rightarrow> (Inl e, (R, w2))
         | (Inr None, w2) \<Rightarrow>
             (Inr (), (R\<lparr>error_num := error_num R + 1\<rparr>,
                       logger LWarn ''Issue #${issue.number} failed to process'' w2))
         | (Inr (Some result), w2) \<Rightarrow>
             (let R1 = R\<lparr>active_num := active_num R + 1\<rparr>;
                  w3 = logger LInfo ''Issue #${issue.number} processed successfully'' w2
              in case update_issue E (number i) (r_newBody result) w3 of
                   (Some e, w4) \<Rightarrow> (Inl e, (R1, w4))
                 | (None, w4) \<Rightarrow>
                     (let w5 = logger LInfo ''Updated issue body for issue #${issue.number}'' w4;
                          (r, R2) = merge_posts result R1
                      in (r, (R2, w5))))))"

text \<open>
  The \<^verbatim>\<open>for\<close> loop: one awaited \<^verbatim>\<open>pool.add\<close> per issue. \<open>None\<close>: the loop waits for
  ever; \<open>Some (Inl e)\<close>: a task threw \<open>e\<close>; \<open>Some (Inr ())\<close>: every task is done.
\<close>

fun run_loop ::
  "env \<Rightarrow> config \<Rightarrow> issue list \<Rightarrow> pool \<Rightarrow> report \<times> world \<Rightarrow> (js_error + unit) option \<times> pool \<times> (report \<times> world)" where
  "run_loop E C [] p s = (Some (Inr ()), p, s)"
| "run_loop E C (i # is) p s =
     (case pool_add p (number i) (task E C i) s of
        (None, p') \<Rightarrow> (None, p', s)
      | (Some (Inl e, s'), p') \<Rightarrow> (Some (Inl e), p', s')
      | (Some (Inr u, s'), p') \<Rightarrow> run_loop E C is p' s')"

text \<open>
  The comparator of the final sort, \<^verbatim>\<open>(a, b) => new Date(b.created) - new Date(a.created)\<close>:
  the difference of the two times, \<open>None\<close> (\<^verbatim>\<open>NaN\<close>) when either date is invalid.
\<close>

definition created_time :: "env \<Rightarrow> article \<Rightarrow> int option" where
  "created_time E a = date_time E (a_created a)"

definition compare_created :: "env \<Rightarrow> article \<Rightarrow> article \<Rightarrow> int option" where
  "compare_created E a b =
     (case (created_time E b, created_time E a) of
        (Some tb, Some ta) \<Rightarrow> Some (tb - ta)
      | _ \<Rightarrow> None)"

text \<open>
  \<^verbatim>\<open>Array.prototype.sort(comparefn)\<close>. The language reads a comparator result of
  \<^verbatim>\<open>NaN\<close> as \<open>+0\<close>, asks for a stable sort, and leaves the order to the engine when the
  comparator is not consistent, which this one is not as soon as one date is invalid. The
  model is the stable insertion sort: each element in turn moves left past the elements the
  comparator places strictly after it. \<open>shift_in\<close> works on the sorted prefix with its last
  element first.
\<close>

definition positive :: "int option \<Rightarrow> bool" where
  "positive v = (case v of None \<Rightarrow> False | Some d \<Rightarrow> 0 < d)"

fun shift_in :: "('a \<Rightarrow> 'a \<Rightarrow> int option) \<Rightarrow> 'a \<Rightarrow> 'a list \<Rightarrow> 'a list" where
  "shift_in cmp x [] = [x]"
| "shift_in cmp x (y # ys) =
     (if positive (cmp y x) then y # shift_in cmp x ys else x # y # ys)"

definition array_sort :: "('a \<Rightarrow> 'a \<Rightarrow> int option) \<Rightarrow> 'a list \<Rightarrow> 'a list" where
  "array_sort cmp xs = rev (foldl (\<lambda>pre x. shift_in cmp x pre) [] xs)"

text \<open>How a run ends: the report it wrote, the error that made it exit, or never.\<close>

datatype outcome = Completed report | Aborted js_error | Pending

text \<open>
  The directory that is created: \<^verbatim>\<open>DATAPATH\<close> without its leading slashes when it is
  absolute (\<^verbatim>\<open>path.dirname\<close> is left to the collaborator).
\<close>

definition dataPath_of :: "string \<Rightarrow> string" where
  "dataPath_of d = (if d \<noteq> [] \<and> hd d = CHR ''/'' then dropWhile (\<lambda>c. c = CHR ''/'') d else d)"

text \<open>What follows the loop in the \<^verbatim>\<open>try\<close> block of \<^verbatim>\<open>run\<close>.\<close>

definition finish_run :: "env \<Rightarrow> config \<Rightarrow> report \<Rightarrow> report io" where
  "finish_run E C R w =
     (let w1 = logger LInfo ''All issues processed, active: ${active_num}, errors: ${error_num}, articles: ${article_num}'' w;
          R1 = R\<lparr>article_data := array_sort (compare_created E) (article_data R)\<rparr>;
          R2 = R1\<lparr>last_updated_time := dayjs_render E (now E) (DATE_FORMAT C)\<rparr>;
          w2 = logger LInfo ''Last updated time: ${last_updated_time}'' w1;
          dataPath = dataPath_of (DATAPATH C);
          w3 = emit (Mkdir dataPath) w2
      in case mkdirSync E dataPath of
           Some e \<Rightarrow> (Inl e, w3)
         | None \<Rightarrow>
             (let w4 = emit (WriteFile (DATAPATH C) R2) w3
              in case writeFileSync E (DATAPATH C) R2 of
                   Some e \<Rightarrow> (Inl e, w4)
                 | None \<Rightarrow>
                     (Inr R2,
                      logger LInfo ''>> end''
                        (logger LInfo ''json written successfully to ${DATAPATH}'' w4))))"

text \<open>The \<^verbatim>\<open>try\<close> block of \<^verbatim>\<open>run\<close>; \<open>None\<close> when the loop waits for ever.\<close>

definition run_try :: "env \<Rightarrow> config \<Rightarrow> world \<Rightarrow> (js_error + report) option \<times> world" where
  "run_try E C w =
     (let w1 = logger LInfo ''>> begin'' w
      in case getIssues E None w1 of
           (Inl e, w2) \<Rightarrow> (Some (Inl e), w2)
         | (Inr allIssues, w2) \<Rightarrow>
             (let w3 = logger LInfo ''Fetched all issues, total count: ${allIssues.length}'' w2;
                  R0 = \<lparr>friends_num = length allIssues, active_num = 0, error_num = 0,
                        article_num = 0, last_updated_time = [], article_data = []\<rparr>
              in case run_loop E C allIssues (new_pool CONCURRENCY_LIMIT) (R0, w3) of
                   (None, p, (R, w4)) \<Rightarrow> (None, w4)
                 | (Some (Inl e), p, (R, w4)) \<Rightarrow> (Some (Inl e), w4)
                 | (Some (Inr u), p, (R, w4)) \<Rightarrow>
                     (case finish_run E C R w4 of (r, w5) \<Rightarrow> (Some r, w5))))"

text \<open>
  \<^verbatim>\<open>run\<close>: the \<^verbatim>\<open>catch\<close> logs the error twice and ends the process with status 1.
\<close>

definition run :: "env \<Rightarrow> config \<Rightarrow> world \<Rightarrow> outcome \<times> world" where
  "run E C w =
     (case run_try E C w of
        (None, w') \<Rightarrow> (Pending, w')
      | (Some (Inl e), w') \<Rightarrow>
          (Aborted e,
           emit (Exit 1)
             (logger LError ''Error processing issues: ${error.message}''
                (handleError e ''Error processing issues'' w')))
      | (Some (Inr R), w') \<Rightarrow> (Completed R, w'))"

definition world0 :: world where
  "world0 = \<lparr>requests = 0, trace = []\<rparr>"

section \<open>Definitions used to state the properties\<close>

text \<open>
  The state in which attempt \<open>k\<close> of \<^verbatim>\<open>withRetry\<close> starts when every earlier attempt
  failed: each failed attempt is followed by the delay of 1000 milliseconds.
\<close>

fun attempt_world :: "'a io \<Rightarrow> nat \<Rightarrow> world \<Rightarrow> world" where
  "attempt_world fn 0 w = w"
| "attempt_world fn (Suc k) w = attempt_world fn k (emit (Sleep 1000) (snd (fn w)))"

text \<open>
  Two attempt functions for concrete runs: one fails on the first two requests of the run and
  then returns the request's index, one fails every time with a message that tells the
  attempts apart.
\<close>

definition flaky :: "nat io" where
  "flaky w =
     (if requests w < 2 then Inl RequestError else Inr (requests w),
      w\<lparr>requests := Suc (requests w)\<rparr>)"

definition failing :: "nat io" where
  "failing w = (Inl (MessageError (replicate (requests w) CHR ''x'')), w\<lparr>requests := Suc (requests w)\<rparr>)"

text \<open>
  A concrete configuration and concrete collaborators for runs that are evaluated: every
  request is answered with a feed of one RSS item, only the date \<open>2024-01-01\<close> parses, a
  \<^verbatim>\<open>Date\<close> is valid only when built from a number, the fenced block is any body with an
  opening brace, and the only text that parses as JSON is \<open>{}\<close>.
\<close>

definition demo_item :: item where
  "demo_item =
     \<lparr>title_text = ''Hello'', link_text = ''https://x/1'', alternate_href = None,
      link_href = None, pubDate_text = ''2024-01-01'', published_text = []\<rparr>"

definition demo_config :: config where
  "demo_config =
     \<lparr>RETRY_TIMES = 3, POSTS_COUNT = 2, DATE_FORMAT = ''YYYY-MM-DD HH:mm:ss'',
      DATAPATH = ''all.json''\<rparr>"

definition demo_env :: env where
  "demo_env =
     \<lparr>axios_get = (\<lambda>n url. Inr \<lparr>status = 200, body = ''<rss>''\<rparr>),
      cheerio_load = (\<lambda>s. Inr \<lparr>feed_entries = [], rss_items = [demo_item]\<rparr>),
      dayjs_parse = (\<lambda>s. if s = ''2024-01-01'' then Some 1704067200000 else None),
      dayjs_render = (\<lambda>t f. if t = 1704067200000 then ''2024-01-01 00:00:00'' else ''1970-01-01 00:00:00''),
      date_time = (\<lambda>v. case v of Some (JNum n) \<Rightarrow> Some n | _ \<Rightarrow> None),
      now = 0,
      match_fence = (\<lambda>b. if CHR ''{'' \<in> set b then Some b else None),
      json_parse = (\<lambda>s. if s = ''{}'' then Inr (JObj []) else Inl (MessageError ''Unexpected token'')),
      json_stringify = (\<lambda>j. ''{}''),
      string_replace = (\<lambda>s a b. s),
      list_for_repo = Inr [],
      issues_update = (\<lambda>n b. None),
      mkdirSync = (\<lambda>p. None),
      writeFileSync = (\<lambda>p R. None)\<rparr>"







text \<open>
  A tracker with two entries: the first stores a block with a feed and four posts, one of
  them without a date; the second has no body.
\<close>

definition stored_post :: "int \<Rightarrow> json" where
  "stored_post n = JObj [(''title'', JStr ''T''), (''published'', JNum n), (''link'', JStr ''L'')]"

definition demo_block :: json where
  "demo_block =
     JObj [(''feed'', JStr ''https://example.com/rss''), (''name'', JStr ''Ann''),
           (''posts'', JArr [stored_post 5, stored_post 9, JObj [(''title'', JStr ''undated'')],
                             stored_post 7])]"

definition demo_issues :: "issue list" where
  "demo_issues =
     [\<lparr>number = 1, issue_body = Some ''{friend}'', labels = []\<rparr>,
      \<lparr>number = 2, issue_body = None, labels = []\<rparr>]"

definition tracker_env :: env where
  "tracker_env =
     demo_env\<lparr>json_parse := (\<lambda>s. if s = ''{friend}'' then Inr demo_block
                                  else Inl (MessageError ''Unexpected token'')),
              list_for_repo := Inr demo_issues\<rparr>"

definition stored_article :: "jsval \<Rightarrow> jsval \<Rightarrow> jsval \<Rightarrow> article" where
  "stored_article t c l = \<lparr>a_title = t, a_created = c, a_link = l, a_author = JStr ''Ann'', a_avatar = JStr []\<rparr>"

definition demo_report :: report where
  "demo_report =
     \<lparr>friends_num = 2, active_num = 2, error_num = 0, article_num = 4,
      last_updated_time = ''1970-01-01 00:00:00'',
      article_data =
        [stored_article (Some (JStr ''T'')) (Some (JNum 9)) (Some (JStr ''L'')),
         stored_article (Some (JStr ''T'')) (Some (JNum 5)) (Some (JStr ''L'')),
         stored_article (Some (JStr ''undated'')) None None,
         stored_article (Some (JStr ''T'')) (Some (JNum 7)) (Some (JStr ''L''))]\<rparr>"









section \<open>The retrying fetcher\<close>

lemma withRetry_from_success:
  "i + k < n \<Longrightarrow> (\<forall>j<k. isl (fst (fn (attempt_world fn j w)))) \<Longrightarrow>
   fn (attempt_world fn k w) = (Inr v, w') \<Longrightarrow>
   withRetry_from i fn (int n) 1000 w = (Inr (Some v), w')"
proof (induction k arbitrary: i w)
  case 0
  then show ?case by (simp add: withRetry_from.simps[of i])
next
  case (Suc k)
  from Suc.prems(2) have f0: "isl (fst (fn w))" by force
  then obtain e w1 where fw: "fn w = (Inl e, w1)" by (cases "fn w"; cases "fst (fn w)") auto
  have rest: "\<forall>j<k. isl (fst (fn (attempt_world fn j (emit (Sleep 1000) w1))))"
    using Suc.prems(2) fw by (metis Suc_less_eq attempt_world.simps(2) snd_conv)
  have last: "fn (attempt_world fn k (emit (Sleep 1000) w1)) = (Inr v, w')"
    using Suc.prems(3) fw by simp
  have "withRetry_from (Suc i) fn (int n) 1000 (emit (Sleep 1000) w1) = (Inr (Some v), w')"
    using Suc.IH[of "Suc i" "emit (Sleep 1000) w1"] Suc.prems(1) rest last by simp
  moreover have "int i < int n" "int i \<noteq> int n - 1" using Suc.prems(1) by auto
  ultimately show ?case using fw by (simp add: withRetry_from.simps[of i])
qed

lemma withRetry_from_exhausted:
  "i + k = n \<Longrightarrow> 0 < k \<Longrightarrow> (\<forall>j<k. isl (fst (fn (attempt_world fn j w)))) \<Longrightarrow>
   withRetry_from i fn (int n) 1000 w =
     (Inl (projl (fst (fn (attempt_world fn (k - 1) w)))), snd (fn (attempt_world fn (k - 1) w)))"
proof (induction k arbitrary: i w)
  case 0
  then show ?case by simp
next
  case (Suc k)
  from Suc.prems(3) have f0: "isl (fst (fn w))" by force
  then obtain e w1 where fw: "fn w = (Inl e, w1)" by (cases "fn w"; cases "fst (fn w)") auto
  show ?case
  proof (cases "k = 0")
    case True
    then have "int i < int n" "int i = int n - 1" using Suc.prems(1) by auto
    then show ?thesis using fw True by (simp add: withRetry_from.simps[of i])
  next
    case False
    have rest: "\<forall>j<k. isl (fst (fn (attempt_world fn j (emit (Sleep 1000) w1))))"
      using Suc.prems(3) fw by (metis Suc_less_eq attempt_world.simps(2) snd_conv)
    have ih: "withRetry_from (Suc i) fn (int n) 1000 (emit (Sleep 1000) w1) =
      (Inl (projl (fst (fn (attempt_world fn (k - 1) (emit (Sleep 1000) w1))))),
       snd (fn (attempt_world fn (k - 1) (emit (Sleep 1000) w1))))"
      using Suc.IH[of "Suc i" "emit (Sleep 1000) w1"] Suc.prems(1) rest False by simp
    have sh: "attempt_world fn (Suc k - 1) w = attempt_world fn (k - 1) (emit (Sleep 1000) w1)"
      using False fw by (cases k) auto
    have "int i < int n" "int i \<noteq> int n - 1" using Suc.prems(1) False by auto
    then show ?thesis using fw ih sh by (simp add: withRetry_from.simps[of i])
  qed
qed

text \<open>
  C5. For every attempt function and every \<open>n \<ge> 1\<close>, \<^verbatim>\<open>withRetry(fn, n)\<close> makes at most
  \<open>n\<close> attempts, with a delay of 1000 ms between two attempts. If attempt \<open>k < n\<close> (counted
  from 0) is the first to succeed, its result and state are returned at once, after
  \<open>k + 1\<close> attempts and \<open>k\<close> delays; this includes \<open>k = n - 1\<close>, the last attempt.
  If all \<open>n\<close> attempts fail, the error of the last one is thrown, with no delay after it.
\<close>

theorem withRetry_attempts:
  assumes "1 \<le> n"
  shows "(\<forall>k v w'. k < n \<longrightarrow> (\<forall>j<k. isl (fst (fn (attempt_world fn j w)))) \<longrightarrow>
            fn (attempt_world fn k w) = (Inr v, w') \<longrightarrow>
            withRetry fn (int n) w = (Inr (Some v), w'))
       \<and> ((\<forall>j<n. isl (fst (fn (attempt_world fn j w)))) \<longrightarrow>
            withRetry fn (int n) w =
              (Inl (projl (fst (fn (attempt_world fn (n - 1) w)))),
               snd (fn (attempt_world fn (n - 1) w))))"
proof (intro conjI allI impI)
  fix k v w'
  assume "k < n" "\<forall>j<k. isl (fst (fn (attempt_world fn j w)))"
    "fn (attempt_world fn k w) = (Inr v, w')"
  then show "withRetry fn (int n) w = (Inr (Some v), w')"
    unfolding withRetry_def using withRetry_from_success[of 0 k n fn w v w'] by simp
next
  assume "\<forall>j<n. isl (fst (fn (attempt_world fn j w)))"
  then show "withRetry fn (int n) w =
      (Inl (projl (fst (fn (attempt_world fn (n - 1) w)))), snd (fn (attempt_world fn (n - 1) w)))"
    unfolding withRetry_def using withRetry_from_exhausted[of 0 n n fn w] assms by simp
qed

theorem withRetry_attempts_witness:
  "(1::nat) \<le> 3
   \<and> withRetry flaky 3 world0 = (Inr (Some 2), \<lparr>requests = 3, trace = [Sleep 1000, Sleep 1000]\<rparr>)
   \<and> withRetry failing 3 world0 =
       (Inl (MessageError ''xx''), \<lparr>requests = 3, trace = [Sleep 1000, Sleep 1000]\<rparr>)"
proof -
  have one: "(1::nat) \<le> 3" by simp
  have a0: "attempt_world flaky 0 world0 = world0" by simp
  have a1: "attempt_world flaky 1 world0 = \<lparr>requests = 1, trace = [Sleep 1000]\<rparr>"
    by (simp add: flaky_def world0_def emit_def)
  have a2: "attempt_world flaky 2 world0 = \<lparr>requests = 2, trace = [Sleep 1000, Sleep 1000]\<rparr>"
    by (simp add: flaky_def world0_def emit_def numeral_2_eq_2)
  have fails: "\<forall>j<2. isl (fst (flaky (attempt_world flaky j world0)))"
  proof (intro allI impI)
    fix j :: nat assume "j < 2"
    then have "j = 0 \<or> j = 1" by auto
    then show "isl (fst (flaky (attempt_world flaky j world0)))"
      using a0 a1 by (auto simp: flaky_def world0_def)
  qed
  have ok: "flaky (attempt_world flaky 2 world0) =
      (Inr 2, \<lparr>requests = 3, trace = [Sleep 1000, Sleep 1000]\<rparr>)"
    by (simp add: a2 flaky_def)
  have b2: "attempt_world failing 2 world0 = \<lparr>requests = 2, trace = [Sleep 1000, Sleep 1000]\<rparr>"
    by (simp add: failing_def world0_def emit_def numeral_2_eq_2)
  have allfail: "\<forall>j<3. isl (fst (failing (attempt_world failing j world0)))"
    by (simp add: failing_def)
  have last: "failing (attempt_world failing (3 - 1) world0) =
      (Inl (MessageError ''xx''), \<lparr>requests = 3, trace = [Sleep 1000, Sleep 1000]\<rparr>)"
  proof -
    have "failing (attempt_world failing 2 world0) =
      (Inl (MessageError ''xx''), \<lparr>requests = 3, trace = [Sleep 1000, Sleep 1000]\<rparr>)"
      by (subst b2) (simp add: failing_def numeral_2_eq_2)
    then show ?thesis by simp
  qed
  have lt: "(2::nat) < 3" by simp
  from withRetry_attempts[OF one, of flaky world0] fails ok lt
  have "withRetry flaky (int 3) world0 = (Inr (Some 2), \<lparr>requests = 3, trace = [Sleep 1000, Sleep 1000]\<rparr>)"
    by blast
  moreover from withRetry_attempts[OF one, of failing world0] allfail last
  have "withRetry failing (int 3) world0 =
       (Inl (MessageError ''xx''), \<lparr>requests = 3, trace = [Sleep 1000, Sleep 1000]\<rparr>)"
    by (metis fst_conv snd_conv sum.sel(1))
  ultimately show ?thesis by simp
qed

section \<open>The feed parser\<close>

lemma requests_logger [simp]: "requests (logger l m w) = requests w"
  by (simp add: logger_def emit_def)

lemma requests_emit [simp]: "requests (emit e w) = requests w"
  by (simp add: emit_def)

lemma requests_handleError [simp]: "requests (handleError e c w) = requests w"
  by (cases e) simp_all

lemma requests_each_item [simp]: "requests (snd (each_item E C r its ps w)) = requests w"
  by (induction its arbitrary: ps w) (simp_all add: Let_def)

lemma parseFeed_returns: "\<exists>posts w'. parseFeed E C url w = (Inr posts, w')"
  by (simp add: parseFeed_def split: prod.splits sum.splits)

lemma requests_each_item_eq: "each_item E C r its ps w = (posts, w') \<Longrightarrow> requests w' = requests w"
  using requests_each_item[of E C r its ps w] by simp

lemma requests_parseFeed_try: "requests (snd (parseFeed_try E C url w)) = Suc (requests w)"
  by (auto simp: parseFeed_try_def http_get_def Let_def
           split: prod.splits sum.splits dest!: requests_each_item_eq)

lemma requests_parseFeed: "requests (snd (parseFeed E C url w)) = Suc (requests w)"
  using requests_parseFeed_try[of E C url w]
  by (auto simp: parseFeed_def split: prod.splits sum.splits)

lemma withRetry_first_success:
  "1 \<le> n \<Longrightarrow> fn w = (Inr v, w') \<Longrightarrow> withRetry fn n w = (Inr (Some v), w')"
  by (simp add: withRetry_def withRetry_from.simps[of 0])

text \<open>
  C9. For every feed URL and every retry count \<open>n \<ge> 1\<close>, \<^verbatim>\<open>withRetry(() => parseFeed(url), n)\<close>
  behaves as one call of \<^verbatim>\<open>parseFeed(url)\<close>: \<^verbatim>\<open>parseFeed\<close> always returns a list and never
  throws, so the first attempt succeeds, its list and its final state (the trace included)
  are the result, exactly one request has been issued, and no delay has been added.
\<close>

theorem withRetry_parseFeed_single:
  assumes "1 \<le> n"
  shows "\<exists>posts w'. parseFeed E C url w = (Inr posts, w')
           \<and> withRetry (parseFeed E C url) n w = (Inr (Some posts), w')
           \<and> requests w' = Suc (requests w)"
proof -
  obtain posts w' where p: "parseFeed E C url w = (Inr posts, w')"
    using parseFeed_returns by blast
  moreover have "withRetry (parseFeed E C url) n w = (Inr (Some posts), w')"
    using withRetry_first_success[of n "parseFeed E C url" w posts w'] assms p by simp
  moreover have "requests w' = Suc (requests w)"
    using requests_parseFeed[of E C url w] p by simp
  ultimately show ?thesis by blast
qed

theorem withRetry_parseFeed_single_witness:
  "(1::int) \<le> 3 \<and>
   withRetry (parseFeed (demo_env\<lparr>axios_get := (\<lambda>n url. Inl RequestError)\<rparr>) demo_config (JStr ''u'')) 3 world0 =
     (Inr (Some []), \<lparr>requests = 1,
        trace = [Log LInfo ''Fetching feed from URL: ${feedUrl}'', HttpGet (JStr ''u''),
                 Log LError ''Error parsing feed from ${feedUrl}: No response received'']\<rparr>)"
proof -
  have one: "(1::int) \<le> 3" by simp
  have ev: "parseFeed (demo_env\<lparr>axios_get := (\<lambda>n url. Inl RequestError)\<rparr>) demo_config (JStr ''u'') world0 =
     (Inr [], \<lparr>requests = 1,
        trace = [Log LInfo ''Fetching feed from URL: ${feedUrl}'', HttpGet (JStr ''u''),
                 Log LError ''Error parsing feed from ${feedUrl}: No response received'']\<rparr>)"
    by (simp add: parseFeed_def parseFeed_try_def http_get_def demo_env_def world0_def logger_def emit_def)
  from withRetry_parseFeed_single[OF one, of "demo_env\<lparr>axios_get := (\<lambda>n url. Inl RequestError)\<rparr>" demo_config "JStr ''u''" world0] ev
  show ?thesis by auto
qed

text \<open>
  C4, as claimed: when the markup cannot be parsed at all, the feed parser throws to its
  caller instead of returning an empty sequence. Evaluated where the markup parser throws on
  the body received: \<^verbatim>\<open>parseFeed\<close> returns the empty list and throws nothing.
\<close>

theorem parseFeed_unparsable_counterexample:
  "parseFeed (demo_env\<lparr>cheerio_load := (\<lambda>s. Inl (MessageError ''not markup''))\<rparr>) demo_config
      (JStr ''https://example.com/rss'') world0 =
     (Inr [], \<lparr>requests = 1,
        trace = [Log LInfo ''Fetching feed from URL: ${feedUrl}'',
                 HttpGet (JStr ''https://example.com/rss''),
                 Log LInfo ''Feed response received from ${feedUrl}, status: ${response.status}'',
                 Log LError ''Error parsing feed from ${feedUrl}: not markup'']\<rparr>)"
  by (simp add: parseFeed_def parseFeed_try_def http_get_def demo_env_def world0_def logger_def emit_def)

lemma last_trace_handleError: "\<exists>m. last (trace (handleError e c w)) = Log LError m"
  by (cases e) (simp_all add: logger_def emit_def)

text \<open>
  C4, amended. \<^verbatim>\<open>parseFeed\<close> never throws: it always returns a list. When the markup of
  the body received cannot be parsed, its \<^verbatim>\<open>catch\<close> logs the failure at error level and
  returns the empty list, which is also what a body with neither Atom entries nor RSS items
  gives.
\<close>

theorem parseFeed_never_throws:
  "(\<exists>posts w'. parseFeed E C url w = (Inr posts, w'))
   \<and> (axios_get E (requests w) url = Inr resp \<longrightarrow> cheerio_load E (body resp) = Inl e \<longrightarrow>
        fst (parseFeed E C url w) = Inr []
        \<and> (\<exists>m. last (trace (snd (parseFeed E C url w))) = Log LError m))
   \<and> (axios_get E (requests w) url = Inr resp \<longrightarrow>
        cheerio_load E (body resp) = Inr \<lparr>feed_entries = [], rss_items = []\<rparr> \<longrightarrow>
        fst (parseFeed E C url w) = Inr [])"
proof (intro conjI impI)
  show "\<exists>posts w'. parseFeed E C url w = (Inr posts, w')" by (rule parseFeed_returns)
next
  assume "axios_get E (requests w) url = Inr resp" "cheerio_load E (body resp) = Inl e"
  then have "parseFeed_try E C url w = (Inl e,
      logger LInfo ''Feed response received from ${feedUrl}, status: ${response.status}''
        (emit (HttpGet url) (logger LInfo ''Fetching feed from URL: ${feedUrl}'' w\<lparr>requests := Suc (requests w)\<rparr>)))"
    by (simp add: parseFeed_try_def http_get_def Let_def logger_def emit_def)
  then show "fst (parseFeed E C url w) = Inr []"
    "\<exists>m. last (trace (snd (parseFeed E C url w))) = Log LError m"
    by (simp_all add: parseFeed_def last_trace_handleError)
next
  assume "axios_get E (requests w) url = Inr resp"
    "cheerio_load E (body resp) = Inr \<lparr>feed_entries = [], rss_items = []\<rparr>"
  then show "fst (parseFeed E C url w) = Inr []"
    by (simp add: parseFeed_def parseFeed_try_def http_get_def Let_def logger_def emit_def slice0_def)
qed

theorem parseFeed_never_throws_witness:
  "axios_get (demo_env\<lparr>cheerio_load := (\<lambda>s. Inl (MessageError ''not markup''))\<rparr>) (requests world0) (JStr ''u'')
      = Inr \<lparr>status = 200, body = ''<rss>''\<rparr>
   \<and> cheerio_load (demo_env\<lparr>cheerio_load := (\<lambda>s. Inl (MessageError ''not markup''))\<rparr>) ''<rss>''
      = Inl (MessageError ''not markup'')
   \<and> fst (parseFeed (demo_env\<lparr>cheerio_load := (\<lambda>s. Inl (MessageError ''not markup''))\<rparr>) demo_config (JStr ''u'') world0) = Inr []"
proof -
  let ?E = "demo_env\<lparr>cheerio_load := (\<lambda>s. Inl (MessageError ''not markup''))\<rparr>"
  have a: "axios_get ?E (requests world0) (JStr ''u'') = Inr \<lparr>status = 200, body = ''<rss>''\<rparr>"
    by (simp add: demo_env_def)
  have c: "cheerio_load ?E (body \<lparr>status = 200, body = ''<rss>''\<rparr>) = Inl (MessageError ''not markup'')"
    by simp
  from parseFeed_never_throws[of ?E demo_config "JStr ''u''" world0 "\<lparr>status = 200, body = ''<rss>''\<rparr>"
      "MessageError ''not markup''"] a c
  show ?thesis by simp
qed

text \<open>
  C6, as claimed: the published field is empty when the raw date is absent or cannot be
  parsed. An RSS item whose \<^verbatim>\<open>pubDate\<close> is the text \<open>soon\<close>, which the date library does
  not parse, is emitted with the published field \<open>Invalid Date\<close>.
\<close>

theorem published_unparsable_counterexample:
  "dayjs_parse (demo_env\<lparr>cheerio_load := (\<lambda>s. Inr \<lparr>feed_entries = [], rss_items = [demo_item\<lparr>pubDate_text := ''soon''\<rparr>]\<rparr>)\<rparr>) ''soon'' = None
   \<and> fst (parseFeed (demo_env\<lparr>cheerio_load := (\<lambda>s. Inr \<lparr>feed_entries = [], rss_items = [demo_item\<lparr>pubDate_text := ''soon''\<rparr>]\<rparr>)\<rparr>)
          demo_config (JStr ''u'') world0) =
       Inr [\<lparr>title = ''Hello'', link = ''https://x/1'', published = ''Invalid Date''\<rparr>]"
  by (simp add: parseFeed_def parseFeed_try_def http_get_def demo_env_def demo_config_def demo_item_def
        world0_def logger_def emit_def slice0_def item_link_def item_published_def item_date_def
        formatDate_def Let_def)

text \<open>
  C6, amended. The posts emitted are, in order, those of the items with a non-empty title and
  a non-empty link; the published field of each is empty when the raw date text
  (\<^verbatim>\<open>pubDate\<close> for RSS, \<^verbatim>\<open>published\<close> for Atom) is absent or empty, and otherwise what
  \<^verbatim>\<open>formatDate\<close> returns for it: the date rendered in the configured format when the
  library parses the text, the library's text \<open>Invalid Date\<close> when it does not. Nothing is
  thrown.
\<close>

theorem published_field:
  "fst (each_item E C isRss its ps w) =
     ps @ map (\<lambda>it. \<lparr>title = title_text it, link = the (item_link isRss it),
                     published =
                       (if item_date isRss it = [] then []
                        else case dayjs_parse E (item_date isRss it) of
                               None \<Rightarrow> ''Invalid Date''
                             | Some t \<Rightarrow> dayjs_render E t (DATE_FORMAT C))\<rparr>)
            (filter (\<lambda>it. title_text it \<noteq> [] \<and> item_link isRss it \<noteq> None \<and> item_link isRss it \<noteq> Some []) its)"
  by (induction its arbitrary: ps w)
     (auto simp: Let_def item_published_def formatDate_def split: option.splits)

theorem published_field_witness:
  "fst (each_item demo_env demo_config True [demo_item, demo_item\<lparr>pubDate_text := []\<rparr>, demo_item\<lparr>pubDate_text := ''soon''\<rparr>] [] world0) =
     [\<lparr>title = ''Hello'', link = ''https://x/1'', published = ''2024-01-01 00:00:00''\<rparr>,
      \<lparr>title = ''Hello'', link = ''https://x/1'', published = []\<rparr>,
      \<lparr>title = ''Hello'', link = ''https://x/1'', published = ''Invalid Date''\<rparr>]"
  using published_field[of demo_env demo_config True "[demo_item, demo_item\<lparr>pubDate_text := []\<rparr>, demo_item\<lparr>pubDate_text := ''soon''\<rparr>]" "[]" world0]
  by (simp add: demo_env_def demo_config_def demo_item_def item_link_def item_date_def)

section \<open>The entry processor and the merge of one entry\<close>

lemma process_parsed_shape:
  "process_parsed E C b jm d w = (r, w') \<Longrightarrow> r = Inr x \<Longrightarrow> \<exists>res. x = Some res \<and> r_data res = Some d"
  by (auto simp: process_parsed_def Let_def split: sum.splits prod.splits option.splits if_splits)

lemma processIssue_try_shape:
  "processIssue_try E C i w = (Inr x, w') \<Longrightarrow> \<exists>res. x = Some res"
  by (auto simp: processIssue_try_def Let_def split: sum.splits option.splits if_splits
           dest: process_parsed_shape)

lemma processIssue_returns: "\<exists>res w'. processIssue E C i w = (Inr (Some res), w')"
proof (cases "processIssue_try E C i w")
  case (Pair r w')
  then show ?thesis
    by (cases r) (auto simp: processIssue_def dest: processIssue_try_shape)
qed


lemma get_prop_null: "get_prop JNull k = Inl (MessageError ''Cannot read properties of null'')"
  by simp











lemma merge_posts_counts:
  "merge_posts res R = (r, R') \<Longrightarrow>
   active_num R' = active_num R \<and> error_num R' = error_num R \<and> friends_num R' = friends_num R"
  by (auto simp: merge_posts_def split: option.splits if_splits sum.splits json.splits prod.splits)

lemma task_counts:
  assumes "task E C i (R, w) = (r, (R', w'))"
  shows "active_num R' = active_num R + 1 \<and> error_num R' = error_num R \<and> friends_num R' = friends_num R"
proof -
  obtain res w2 where p: "processIssue E C i (logger LInfo ''Processing issue #${issue.number}'' w) = (Inr (Some res), w2)"
    using processIssue_returns by blast
  show ?thesis using assms p
    by (auto simp: task_def Let_def split: prod.splits option.splits dest: merge_posts_counts)
qed



lemma pool_add_idle:
  "running p = 0 \<Longrightarrow> queue p = [] \<Longrightarrow> 0 < maxConcurrency p \<Longrightarrow> pool_add p who fn s = (Some (fn s), p)"
  by (simp add: pool_add_def Let_def)

lemma run_loop_idle:
  assumes "running p = 0" "queue p = []" "0 < maxConcurrency p"
  shows "\<exists>r s'. run_loop E C is p s = (Some r, p, s')"
  using assms
  by (induction "is" arbitrary: s) (auto simp: pool_add_idle split: prod.splits sum.splits)

lemma run_loop_counts:
  assumes "running p = 0" "queue p = []" "0 < maxConcurrency p"
    and "run_loop E C is p (R, w) = (Some (Inr u), p', (R', w'))"
  shows "active_num R' = active_num R + length is \<and> error_num R' = error_num R
       \<and> friends_num R' = friends_num R"
  using assms
proof (induction "is" arbitrary: R w)
  case Nil
  then show ?case by simp
next
  case (Cons i "is")
  obtain r R1 w1 where t: "task E C i (R, w) = (r, (R1, w1))" by (metis surj_pair)
  from Cons.prems(4) t Cons.prems(1-3) obtain v where "r = Inr v"
    and rest: "run_loop E C is p (R1, w1) = (Some (Inr u), p', (R', w'))"
    by (cases r) (auto simp: pool_add_idle)
  from Cons.IH[OF Cons.prems(1-3) rest] task_counts[OF t] show ?case by simp
qed


section \<open>The final sort\<close>













section \<open>The run\<close>

lemma demo_run: "fst (run tracker_env demo_config world0) = Completed demo_report"
  by (simp add: run_def run_try_def getIssues_def tracker_env_def demo_env_def demo_config_def
        demo_issues_def demo_block_def stored_post_def demo_report_def stored_article_def
        demo_item_def world0_def logger_def emit_def
        new_pool_def CONCURRENCY_LIMIT_def pool_add_def task_def processIssue_def
        processIssue_try_def process_parsed_def jsonMatch_of_def brace_span_def
        withRetry_def withRetry_from.simps parseFeed_def parseFeed_try_def http_get_def
        slice0_def item_link_def item_published_def item_date_def formatDate_def
        update_issue_def merge_posts_def or_empty_def error_result_def
        finish_run_def array_sort_def compare_created_def created_time_def positive_def
        dataPath_of_def Let_def)


lemma run_completed:
  assumes "run E C w = (Completed R, w')"
  shows "\<exists>issues p Rl w3 w4.
           list_for_repo E = Inr issues
         \<and> run_loop E C issues (new_pool CONCURRENCY_LIMIT)
              (\<lparr>friends_num = length issues, active_num = 0, error_num = 0, article_num = 0,
                last_updated_time = [], article_data = []\<rparr>, w3) = (Some (Inr ()), p, (Rl, w4))
         \<and> R = Rl\<lparr>article_data := array_sort (compare_created E) (article_data Rl),
                  last_updated_time := dayjs_render E (now E) (DATE_FORMAT C)\<rparr>"
  using assms
  by (auto simp: run_def run_try_def getIssues_def finish_run_def Let_def
           split: prod.splits sum.splits option.splits)

lemma new_pool_idle:
  "running (new_pool CONCURRENCY_LIMIT) = 0" "queue (new_pool CONCURRENCY_LIMIT) = []"
  "0 < maxConcurrency (new_pool CONCURRENCY_LIMIT)"
  by (simp_all add: new_pool_def CONCURRENCY_LIMIT_def)

lemma run_completed_counts:
  assumes "run E C w = (Completed R, w')"
  shows "\<exists>issues. list_for_repo E = Inr issues \<and> friends_num R = length issues
           \<and> active_num R = length issues \<and> error_num R = 0"
proof -
  from run_completed[OF assms] obtain issues p Rl w3 w4 where
    l: "list_for_repo E = Inr issues" and
    loop: "run_loop E C issues (new_pool CONCURRENCY_LIMIT)
              (\<lparr>friends_num = length issues, active_num = 0, error_num = 0, article_num = 0,
                last_updated_time = [], article_data = []\<rparr>, w3) = (Some (Inr ()), p, (Rl, w4))" and
    R: "R = Rl\<lparr>article_data := array_sort (compare_created E) (article_data Rl),
                  last_updated_time := dayjs_render E (now E) (DATE_FORMAT C)\<rparr>"
    by blast
  from run_loop_counts[OF new_pool_idle loop] l R show ?thesis by simp
qed


text \<open>
  C1. In every run that completes, the report satisfies
  \<open>active_num + error_num = friends_num\<close>, and \<open>friends_num\<close> is the number of entries the
  tracker listed. (\<open>active_num\<close> counts the entries whose \<^verbatim>\<open>processIssue\<close> call returned
  a truthy result, whatever its status; \<open>error_num\<close> the others that returned.)
\<close>

theorem counts_add_up:
  assumes "run E C w = (Completed R, w')"
  shows "active_num R + error_num R = friends_num R
       \<and> (\<exists>issues. list_for_repo E = Inr issues \<and> friends_num R = length issues)"
  using run_completed_counts[OF assms] by auto

theorem counts_add_up_witness:
  "fst (run tracker_env demo_config world0) = Completed demo_report
   \<and> active_num demo_report + error_num demo_report = friends_num demo_report
   \<and> friends_num demo_report = 2"
proof -
  have r: "run tracker_env demo_config world0 = (Completed demo_report, snd (run tracker_env demo_config world0))"
    using demo_run by (metis prod.collapse)
  from counts_add_up[OF r] demo_run show ?thesis by (simp add: demo_report_def)
qed

text \<open>
  C10. \<^verbatim>\<open>processIssue\<close> always returns a truthy result object, for every entry and in every
  state: it never throws and never returns a falsy value. So in every run that completes,
  \<open>error_num\<close> is 0 and \<open>active_num\<close> equals \<open>friends_num\<close>.
\<close>

theorem error_count_zero:
  "(\<exists>res w1. processIssue E C i w0 = (Inr (Some res), w1))
   \<and> (run E C w = (Completed R, w') \<longrightarrow> error_num R = 0 \<and> active_num R = friends_num R)"
  using processIssue_returns[of E C i w0] run_completed_counts[of E C w R w'] by auto

theorem error_count_zero_witness:
  "fst (run tracker_env demo_config world0) = Completed demo_report
   \<and> error_num demo_report = 0 \<and> active_num demo_report = friends_num demo_report
   \<and> fst (processIssue tracker_env demo_config \<lparr>number = 2, issue_body = None, labels = []\<rparr> world0)
       = Inr (Some error_result)"
proof -
  have r: "run tracker_env demo_config world0 = (Completed demo_report, snd (run tracker_env demo_config world0))"
    using demo_run by (metis prod.collapse)
  have p: "fst (processIssue tracker_env demo_config \<lparr>number = 2, issue_body = None, labels = []\<rparr> world0)
       = Inr (Some error_result)"
    by (simp add: processIssue_def processIssue_try_def Let_def)
  from error_count_zero[of tracker_env demo_config "\<lparr>number = 2, issue_body = None, labels = []\<rparr>" world0
      world0 demo_report "snd (run tracker_env demo_config world0)"] r demo_run p
  show ?thesis by simp
qed



text \<open>
  The retry count matters only below the contract of the retrying fetcher: with a count
  of 0 and a feed declared, \<^verbatim>\<open>withRetry\<close> returns \<^verbatim>\<open>undefined\<close>, the log line after the
  fetch throws on \<^verbatim>\<open>posts.length\<close>, and the entry is left with the error object, which
  has no data.
\<close>

lemma retry_count_zero_drops_block:
  "fst (run tracker_env (demo_config\<lparr>RETRY_TIMES := 0\<rparr>) world0) =
     Completed \<lparr>friends_num = 2, active_num = 2, error_num = 0, article_num = 0,
                last_updated_time = ''1970-01-01 00:00:00'', article_data = []\<rparr>"
  by (simp add: run_def run_try_def getIssues_def tracker_env_def demo_env_def demo_config_def
        demo_issues_def demo_block_def stored_post_def
        demo_item_def world0_def logger_def emit_def
        new_pool_def CONCURRENCY_LIMIT_def pool_add_def task_def processIssue_def
        processIssue_try_def process_parsed_def jsonMatch_of_def brace_span_def
        withRetry_def withRetry_from.simps
        update_issue_def merge_posts_def or_empty_def error_result_def
        finish_run_def array_sort_def compare_created_def created_time_def positive_def
        dataPath_of_def Let_def)



section \<open>A failing tracker update\<close>

























section \<open>The pool\<close>






text \<open>
  In every state reached from the new pool, \<^verbatim>\<open>running\<close> is the number of executing
  bodies, so the decrement of a finishing task never meets 0.
\<close>

lemma running_counts_executing:
  "running s = length (executing s) \<Longrightarrow> pool_run es s = Some s' \<Longrightarrow>
   running s' = length (executing s')"
proof (induction es arbitrary: s)
  case Nil
  then show ?case by simp
next
  case (Cons e es)
  then obtain s1 where st: "pool_step e s = Some s1" and rest: "pool_run es s1 = Some s'"
    by (auto split: option.splits)
  have "running s1 = length (executing s1)"
  proof (cases e)
    case (Call t)
    then show ?thesis using st Cons.prems(1) by (auto split: if_splits)
  next
    case Resume
    then show ?thesis using st Cons.prems(1) by (auto split: list.splits)
  next
    case (Finish t)
    then show ?thesis using st Cons.prems(1)
      by (auto simp: Let_def length_remove1 split: if_splits list.splits)
  qed
  from Cons.IH[OF this rest] show ?case .
qed


text \<open>
  An awaited call on an idle pool is a \<open>Call\<close> and a \<open>Finish\<close>, and leaves the pool as it
  was, as \<open>pool_add\<close> has it.
\<close>

lemma pool_add_as_steps:
  "0 < n \<Longrightarrow> pool_run [Call t, Finish t] (new_sched n) = Some (new_sched n)"
  by (simp add: new_sched_def Let_def)

text \<open>
  The order of the steps matters: a task submitted after a waiter was resolved and before
  that waiter resumed takes the free slot, and the waiter starts all the same. The loop of
  \<^verbatim>\<open>run\<close> never submits at that point.
\<close>

lemma pool_overshoot_without_await:
  "pool_run [Call 1, Call 2, Finish 1, Call 3, Resume] (new_sched 1) =
     Some \<lparr>maxConcurrency = 1, running = 2, queue = [], woken = [], executing = [3, 2]\<rparr>"
  by (simp add: new_sched_def Let_def)



end
